theory Spec2Isabelle
  imports Complex_Main
begin

section \<open>JavaScript values\<close>

text \<open>
  The server handles values of TypeScript type \<open>unknown\<close> and \<open>any\<close>: tool arguments,
  tool results, pipeline descriptions. They are modelled by a datatype of JavaScript
  values. A number is a double: the three non-finite values are constructors of their
  own, a finite one is the rational it denotes (negative zero is identified with zero).
  An object is the association list of its own properties, in which the first binding
  of a key is the property's value; objects of built-in classes (\<open>Date\<close>, \<open>Map\<close>,
  \<open>Set\<close>, promises) are not among the values. A function value is an identifier; what
  a call of it does is given by the host (see \<open>apply_function\<close> below).
\<close>

datatype jsnum = NaN | PosInfinity | NegInfinity | Finite rat

datatype jsval =
    JUndefined
  | JNull
  | JBool bool
  | JNum jsnum
  | JStr string
  | JArr "jsval list"
  | JObj "(string \<times> jsval) list"
  | JFun nat

text \<open>The \<open>typeof\<close> operator.\<close>

fun typeof :: "jsval \<Rightarrow> string" where
  "typeof JUndefined = ''undefined''"
| "typeof JNull = ''object''"
| "typeof (JBool b) = ''boolean''"
| "typeof (JNum n) = ''number''"
| "typeof (JStr s) = ''string''"
| "typeof (JArr xs) = ''object''"
| "typeof (JObj kvs) = ''object''"
| "typeof (JFun f) = ''function''"


fun get_property :: "jsval \<Rightarrow> string \<Rightarrow> jsval" where
  "get_property (JObj kvs) key = (case map_of kvs key of None \<Rightarrow> JUndefined | Some v \<Rightarrow> v)"
| "get_property v key = JUndefined"

text \<open>Truthiness, as tested by \<open>!\<close> and \<open>&&\<close>.\<close>

fun truthy :: "jsval \<Rightarrow> bool" where
  "truthy JUndefined = False"
| "truthy JNull = False"
| "truthy (JBool b) = b"
| "truthy (JNum n) = (n \<noteq> NaN \<and> n \<noteq> Finite 0)"
| "truthy (JStr s) = (s \<noteq> [])"
| "truthy (JArr xs) = True"
| "truthy (JObj kvs) = True"
| "truthy (JFun f) = True"

section \<open>Errors (\<open>MCPError\<close> in enhanced-types.ts)\<close>

text \<open>
  An \<open>Error\<close> instance has a name and a message; \<open>MCPError\<close> adds the optional
  properties \<open>code\<close>, \<open>retryable\<close> and \<open>details\<close>. \<open>None\<close> is an absent property, so
  \<open>'code' in error\<close> is \<open>code error \<noteq> None\<close>. What a \<open>throw\<close> raises is any
  value: an \<open>Error\<close> instance or something else.
\<close>

datatype MCPError =
  MCPError (name: string) (message: string) (code: "jsval option")
           (retryable: "bool option") (details: "thrown option")
and thrown =
    ErrorInstance MCPError
  | NonError jsval

text \<open>\<open>new Error(msg)\<close>: the name is \<open>Error\<close>, no other property is set.\<close>

definition new_Error :: "string \<Rightarrow> MCPError" where
  "new_Error msg = MCPError ''Error'' msg None None None"

section \<open>The host: clock, identifiers, the Linear client, function values\<close>

text \<open>
  Everything outside the repository is a parameter. The world \<open>'w\<close> is the state of
  the process's surroundings; reading the clock, drawing a UUID and calling the Linear
  API may change it. A call of the client returns a result or raises. Applying a
  function value of a pipeline step (\<open>condition\<close>, \<open>transform\<close>) returns a value or
  raises; the steps' functions are taken to be pure. \<open>js_String\<close> is the conversion
  \<open>String(v)\<close>.
\<close>

record 'w host =
  Date_now :: "'w \<Rightarrow> int \<times> 'w"
  randomUUID :: "'w \<Rightarrow> string \<times> 'w"
  client_issues :: "jsval \<Rightarrow> 'w \<Rightarrow> (thrown + jsval) \<times> 'w"
  client_createIssue :: "jsval \<Rightarrow> 'w \<Rightarrow> (thrown + jsval) \<times> 'w"
  apply_function :: "nat \<Rightarrow> jsval \<Rightarrow> thrown + jsval"
  js_String :: "jsval \<Rightarrow> string"

section \<open>Metrics (metrics.ts)\<close>

text \<open>
  \<open>MCPMetrics\<close>, and \<open>Omit<MCPMetrics, 'timestamp'>\<close>, the argument of \<open>record\<close>.
\<close>

record MetricInput =
  requestDuration :: int
  toolName :: string
  success :: bool
  errorType :: "string option"
  retryCount :: int

record MCPMetrics = MetricInput +
  timestamp :: int

text \<open>
  The state of the server: the log of its \<open>MetricsCollector\<close> and the world.
\<close>

record 'w server_state =
  metrics :: "MCPMetrics list"
  world :: 'w

definition maxMetricsCount :: nat where
  "maxMetricsCount = 1000"

text \<open>\<open>xs.slice(-n)\<close> for \<open>n > 0\<close>: the last \<open>n\<close> elements, all of them if there are fewer.\<close>

definition slice_last :: "nat \<Rightarrow> 'a list \<Rightarrow> 'a list" where
  "slice_last n xs = drop (length xs - n) xs"

text \<open>\<open>{...metric, timestamp: t}\<close>\<close>

definition with_timestamp :: "MetricInput \<Rightarrow> int \<Rightarrow> MCPMetrics" where
  "with_timestamp metric t =
     \<lparr>requestDuration = requestDuration metric, toolName = toolName metric,
      success = success metric, errorType = errorType metric,
      retryCount = retryCount metric, timestamp = t\<rparr>"

definition MetricsCollector_record ::
  "'w host \<Rightarrow> MetricInput \<Rightarrow> 'w server_state \<Rightarrow> 'w server_state" where
  "MetricsCollector_record h metric s =
     (let (now, w) = Date_now h (world s);
          fullMetric = with_timestamp metric now;
          pushed = metrics s @ [fullMetric]
      in if length pushed > maxMetricsCount
         then \<lparr>metrics = slice_last maxMetricsCount pushed, world = w\<rparr>
         else \<lparr>metrics = pushed, world = w\<rparr>)"

definition MetricsCollector_getMetrics :: "'w server_state \<Rightarrow> MCPMetrics list" where
  "MetricsCollector_getMetrics s = metrics s"

definition MetricsCollector_getMetricsForTool :: "'w server_state \<Rightarrow> string \<Rightarrow> MCPMetrics list" where
  "MetricsCollector_getMetricsForTool s tool = filter (\<lambda>m. toolName m = tool) (metrics s)"

definition MetricsCollector_reset :: "'w server_state \<Rightarrow> 'w server_state" where
  "MetricsCollector_reset s = s\<lparr>metrics := []\<rparr>"

text \<open>A sequence of \<open>record\<close> calls, in order.\<close>

definition record_all :: "'w host \<Rightarrow> MetricInput list \<Rightarrow> 'w server_state \<Rightarrow> 'w server_state" where
  "record_all h ms s = fold (MetricsCollector_record h) ms s"

section \<open>Schemas and validators (enhanced-types.ts)\<close>

text \<open>
  The schemas are built with Zod; the repository only composes them. Each schema is
  modelled by what its \<open>safeParse\<close> accepts, as Zod 3 documents it:
  \<open>z.string()\<close> accepts strings, \<open>z.number()\<close> accepts numbers other than \<open>NaN\<close>,
  \<open>z.function()\<close> accepts functions, \<open>z.any()\<close> accepts everything, \<open>.optional()\<close> adds
  \<open>undefined\<close> (which is also what a missing key reads as), \<open>.default(d)\<close> replaces
  \<open>undefined\<close> by \<open>d\<close> before parsing, \<open>z.array(s)\<close> accepts arrays whose elements \<open>s\<close> accepts,
  and \<open>z.object({...})\<close> accepts the values that Zod classifies as \<open>object\<close>, parses
  each declared key and ignores the others.
\<close>

fun z_string :: "jsval \<Rightarrow> string option" where
  "z_string (JStr s) = Some s"
| "z_string v = None"

fun z_number :: "jsval \<Rightarrow> jsnum option" where
  "z_number (JNum n) = (if n = NaN then None else Some n)"
| "z_number v = None"

fun z_function :: "jsval \<Rightarrow> nat option" where
  "z_function (JFun f) = Some f"
| "z_function v = None"

definition z_any :: "jsval \<Rightarrow> jsval option" where
  "z_any v = Some v"

text \<open>\<open>schema.optional()\<close>: the outer \<open>None\<close> is a parse failure, \<open>Some None\<close> is \<open>undefined\<close>.\<close>

definition z_optional :: "(jsval \<Rightarrow> 'a option) \<Rightarrow> jsval \<Rightarrow> 'a option option" where
  "z_optional schema v =
     (if v = JUndefined then Some None
      else case schema v of None \<Rightarrow> None | Some x \<Rightarrow> Some (Some x))"

definition z_default :: "(jsval \<Rightarrow> 'a option) \<Rightarrow> jsval \<Rightarrow> jsval \<Rightarrow> 'a option" where
  "z_default schema d v = (if v = JUndefined then schema d else schema v)"

text \<open>
  Zod's classification (\<open>getParsedType\<close>) of a value as \<open>object\<close>: its \<open>typeof\<close> is
  \<open>object\<close>, it is neither \<open>null\<close> nor an array, and it is not taken for a promise,
  which Zod does with every object whose \<open>then\<close> and \<open>catch\<close> are both functions.
\<close>

definition thenable :: "jsval \<Rightarrow> bool" where
  "thenable v \<longleftrightarrow>
     truthy (get_property v ''then'') \<and> typeof (get_property v ''then'') = ''function'' \<and>
     truthy (get_property v ''catch'') \<and> typeof (get_property v ''catch'') = ''function''"

fun is_plain_object :: "jsval \<Rightarrow> bool" where
  "is_plain_object (JObj kvs) = (\<not> thenable (JObj kvs))"
| "is_plain_object v = False"

text \<open>\<open>ListIssuesInputSchema\<close> and \<open>CreateIssueInputSchema\<close>; only \<open>.success\<close> is used.\<close>

definition ListIssuesInputSchema_success :: "jsval \<Rightarrow> bool" where
  "ListIssuesInputSchema_success args \<longleftrightarrow>
     is_plain_object args \<and>
     z_optional z_string (get_property args ''teamId'') \<noteq> None \<and>
     z_default (z_optional z_number) (JNum (Finite 50)) (get_property args ''first'') \<noteq> None"

definition CreateIssueInputSchema_success :: "jsval \<Rightarrow> bool" where
  "CreateIssueInputSchema_success args \<longleftrightarrow>
     is_plain_object args \<and>
     z_string (get_property args ''title'') \<noteq> None \<and>
     z_optional z_string (get_property args ''description'') \<noteq> None \<and>
     z_string (get_property args ''teamId'') \<noteq> None \<and>
     z_optional z_string (get_property args ''assigneeId'') \<noteq> None \<and>
     z_optional z_number (get_property args ''priority'') \<noteq> None"

definition isValidListIssuesArgs :: "jsval \<Rightarrow> bool" where
  "isValidListIssuesArgs args = ListIssuesInputSchema_success args"

definition isValidIssueCreateArgs :: "jsval \<Rightarrow> bool" where
  "isValidIssueCreateArgs args = CreateIssueInputSchema_success args"



text \<open>\<open>PipelineStep\<close>, \<open>MCPContextSchema\<close>, \<open>Pipeline\<close> and \<open>PipelineSchema\<close>.\<close>

record PipelineStep =
  toolName :: string
  params :: jsval
  condition :: "nat option"
  transform :: "nat option"

record MCPContext =
  requestId :: string
  timestamp :: jsnum
  timeout :: "jsnum option"
  retryCount :: "jsnum option"
  parentContext :: "string option"

record Pipeline =
  steps :: "PipelineStep list"
  context' :: "MCPContext option"

definition StepSchema_parse :: "jsval \<Rightarrow> PipelineStep option" where
  "StepSchema_parse v =
     (if \<not> is_plain_object v then None
      else case z_string (get_property v ''toolName'') of None \<Rightarrow> None | Some tn \<Rightarrow>
           case z_any (get_property v ''params'') of None \<Rightarrow> None | Some ps \<Rightarrow>
           case z_optional z_function (get_property v ''condition'') of None \<Rightarrow> None | Some c \<Rightarrow>
           case z_optional z_function (get_property v ''transform'') of None \<Rightarrow> None | Some t \<Rightarrow>
             Some \<lparr>toolName = tn, params = ps, condition = c, transform = t\<rparr>)"

definition MCPContextSchema_parse :: "jsval \<Rightarrow> MCPContext option" where
  "MCPContextSchema_parse v =
     (if \<not> is_plain_object v then None
      else case z_string (get_property v ''requestId'') of None \<Rightarrow> None | Some rid \<Rightarrow>
           case z_number (get_property v ''timestamp'') of None \<Rightarrow> None | Some ts \<Rightarrow>
           case z_optional z_number (get_property v ''timeout'') of None \<Rightarrow> None | Some tmo \<Rightarrow>
           case z_optional z_number (get_property v ''retryCount'') of None \<Rightarrow> None | Some rc \<Rightarrow>
           case z_optional z_string (get_property v ''parentContext'') of None \<Rightarrow> None | Some pc \<Rightarrow>
             Some \<lparr>requestId = rid, timestamp = ts, timeout = tmo, retryCount = rc,
                   parentContext = pc\<rparr>)"

fun z_array :: "(jsval \<Rightarrow> 'a option) \<Rightarrow> jsval \<Rightarrow> 'a list option" where
  "z_array schema (JArr xs) = those (map schema xs)"
| "z_array schema v = None"

definition PipelineSchema_safeParse :: "jsval \<Rightarrow> Pipeline option" where
  "PipelineSchema_safeParse v =
     (if \<not> is_plain_object v then None
      else case z_array StepSchema_parse (get_property v ''steps'') of None \<Rightarrow> None | Some ss \<Rightarrow>
           case z_optional MCPContextSchema_parse (get_property v ''context'') of None \<Rightarrow> None
           | Some ctx \<Rightarrow> Some \<lparr>steps = ss, context' = ctx\<rparr>)"

section \<open>The tool dispatcher (\<open>EnhancedLinearServer.executeTool\<close>)\<close>

text \<open>
  The \<open>try\<close> block either produces a result or raises; both exits record one metric,
  and the \<open>catch\<close> block raises the error again.
\<close>

definition errorType_of :: "thrown \<Rightarrow> string" where
  "errorType_of error =
     (case error of ErrorInstance e \<Rightarrow> MCPError.name e | NonError v \<Rightarrow> ''UnknownError'')"

definition executeTool ::
  "'w host \<Rightarrow> string \<Rightarrow> jsval \<Rightarrow> 'w server_state \<Rightarrow> (thrown + jsval) \<times> 'w server_state" where
  "executeTool h tool_name tool_params s =
     (let (startTime, w0) = Date_now h (world s);
          (outcome, w1) =
            (if tool_name = ''listIssues'' then
               (if \<not> isValidListIssuesArgs tool_params
                then (Inl (ErrorInstance (new_Error ''Invalid list issues arguments'')), w0)
                else client_issues h tool_params w0)
             else if tool_name = ''createIssue'' then
               (if \<not> isValidIssueCreateArgs tool_params
                then (Inl (ErrorInstance (new_Error ''Invalid issue creation arguments'')), w0)
                else client_createIssue h tool_params w0)
             else (Inl (ErrorInstance (new_Error (''Unknown tool: '' @ tool_name))), w0));
          (endTime, w2) = Date_now h w1
      in case outcome of
           Inr result \<Rightarrow>
             (Inr result,
              MetricsCollector_record h
                \<lparr>requestDuration = endTime - startTime, toolName = tool_name, success = True,
                 errorType = None, retryCount = 0\<rparr>
                (s\<lparr>world := w2\<rparr>))
         | Inl error \<Rightarrow>
             (Inl error,
              MetricsCollector_record h
                \<lparr>requestDuration = endTime - startTime, toolName = tool_name, success = False,
                 errorType = Some (errorType_of error), retryCount = 0\<rparr>
                (s\<lparr>world := w2\<rparr>)))"

section \<open>The pipeline engine (pipeline.ts)\<close>

text \<open>
  The error raised by the \<open>catch\<close> block of the loop for a caught value \<open>error\<close>.
\<close>

definition pipelineStepError :: "'w host \<Rightarrow> thrown \<Rightarrow> MCPError" where
  "pipelineStepError h error =
     MCPError ''Error''
       (case error of ErrorInstance e \<Rightarrow> MCPError.message e | NonError v \<Rightarrow> js_String h v)
       (Some (case error of
                ErrorInstance e \<Rightarrow>
                  (case MCPError.code e of Some c \<Rightarrow> c | None \<Rightarrow> JStr ''PIPELINE_STEP_ERROR'')
              | NonError v \<Rightarrow> JStr ''PIPELINE_STEP_ERROR''))
       (Some False)
       None"

text \<open>
  One iteration of the \<open>for\<close> loop leaves its \<open>try\<close> block in one of three ways:
  by \<open>continue\<close>, by reaching its end with the step's result, or by a raised value
  that the \<open>catch\<close> block receives.
\<close>

datatype step_exit = Continue | Completed jsval | Caught thrown

type_synonym 'w toolExecutor =
  "string \<Rightarrow> jsval \<Rightarrow> 'w server_state \<Rightarrow> (thrown + jsval) \<times> 'w server_state"

definition try_step ::
  "'w host \<Rightarrow> 'w toolExecutor \<Rightarrow> PipelineStep \<Rightarrow> jsval \<Rightarrow> 'w server_state
     \<Rightarrow> step_exit \<times> 'w server_state" where
  "try_step h toolExecutor step prevResult s =
     (case (case condition step of
              None \<Rightarrow> Inr False
            | Some c \<Rightarrow> (case apply_function h c prevResult of
                           Inl error \<Rightarrow> Inl error
                         | Inr v \<Rightarrow> Inr (\<not> truthy v))) of
        Inl error \<Rightarrow> (Caught error, s)
      | Inr True \<Rightarrow> (Continue, s)
      | Inr False \<Rightarrow>
          (case (case transform step of
                   None \<Rightarrow> Inr (params step)
                 | Some t \<Rightarrow> apply_function h t prevResult) of
             Inl error \<Rightarrow> (Caught error, s)
           | Inr ps \<Rightarrow>
               (case toolExecutor (toolName step) ps s of
                  (Inl error, s') \<Rightarrow> (Caught error, s')
                | (Inr result, s') \<Rightarrow> (Completed result, s'))))"

fun run_steps ::
  "'w host \<Rightarrow> 'w toolExecutor \<Rightarrow> PipelineStep list \<Rightarrow> jsval \<Rightarrow> jsval list \<Rightarrow> 'w server_state
     \<Rightarrow> (thrown + jsval list) \<times> 'w server_state" where
  "run_steps h toolExecutor [] prevResult results s = (Inr results, s)"
| "run_steps h toolExecutor (step # rest) prevResult results s =
     (case try_step h toolExecutor step prevResult s of
        (Continue, s') \<Rightarrow> run_steps h toolExecutor rest prevResult results s'
      | (Completed result, s') \<Rightarrow> run_steps h toolExecutor rest result (results @ [result]) s'
      | (Caught error, s') \<Rightarrow> (Inl (ErrorInstance (pipelineStepError h error)), s'))"

text \<open>
  The context object \<open>{requestId: randomUUID(), timestamp: Date.now(), ...pipeline.context}\<close>:
  the two calls are made, the fields of a supplied context win.
\<close>

definition make_context :: "'w host \<Rightarrow> MCPContext option \<Rightarrow> 'w \<Rightarrow> MCPContext \<times> 'w" where
  "make_context h supplied w =
     (let (rid, w1) = randomUUID h w;
          (now, w2) = Date_now h w1
      in (case supplied of
            None \<Rightarrow> \<lparr>requestId = rid, timestamp = Finite (of_int now), timeout = None,
                      retryCount = None, parentContext = None\<rparr>
          | Some c \<Rightarrow> c,
          w2))"

definition executePipeline ::
  "'w host \<Rightarrow> 'w toolExecutor \<Rightarrow> jsval \<Rightarrow> 'w server_state
     \<Rightarrow> (thrown + jsval list) \<times> 'w server_state" where
  "executePipeline h toolExecutor pipelineInput s =
     (case PipelineSchema_safeParse pipelineInput of
        None \<Rightarrow> (Inl (ErrorInstance (new_Error ''Invalid pipeline configuration'')), s)
      | Some pipeline \<Rightarrow>
          (let (ctx, w) = make_context h (context' pipeline) (world s)
           in run_steps h toolExecutor (steps pipeline) JNull [] (s\<lparr>world := w\<rparr>)))"

text \<open>
  The state in which the loop of a valid pipeline starts, and the exits of the
  iterations that the loop makes, in order: the loop stops at the first \<open>Caught\<close>.
\<close>

definition loop_start :: "'w host \<Rightarrow> Pipeline \<Rightarrow> 'w server_state \<Rightarrow> 'w server_state" where
  "loop_start h pipeline s = s\<lparr>world := snd (make_context h (context' pipeline) (world s))\<rparr>"

fun step_exits ::
  "'w host \<Rightarrow> 'w toolExecutor \<Rightarrow> PipelineStep list \<Rightarrow> jsval \<Rightarrow> 'w server_state \<Rightarrow> step_exit list" where
  "step_exits h toolExecutor [] prevResult s = []"
| "step_exits h toolExecutor (step # rest) prevResult s =
     (case try_step h toolExecutor step prevResult s of
        (Continue, s') \<Rightarrow> Continue # step_exits h toolExecutor rest prevResult s'
      | (Completed result, s') \<Rightarrow> Completed result # step_exits h toolExecutor rest result s'
      | (Caught error, s') \<Rightarrow> [Caught error])"

section \<open>The request handler (\<open>setupHandlers\<close>, \<open>CallToolRequestSchema\<close>)\<close>

definition getSuggestionsForError :: "MCPError \<Rightarrow> string list" where
  "getSuggestionsForError error =
     (if MCPError.code error = Some (JStr ''RATE_LIMIT'')
        then [''Wait and retry later'', ''Reduce request frequency'']
      else if MCPError.code error = Some (JStr ''AUTHENTICATION_ERROR'')
        then [''Check API key'', ''Verify Linear authentication'']
      else if MCPError.code error = Some (JStr ''NETWORK_ERROR'')
        then [''Check network connection'', ''Verify Linear API status'']
      else [''Check input parameters'', ''Consult Linear API documentation''])"

text \<open>The object that the \<open>catch\<close> block of the handler passes to \<open>JSON.stringify\<close>.\<close>

record ErrorPayload =
  code :: jsval
  message :: string
  details :: thrown
  retryable :: bool
  suggestions :: "string list"

definition error_response :: "'w host \<Rightarrow> thrown \<Rightarrow> ErrorPayload" where
  "error_response h error =
     (let msg = (case error of ErrorInstance e \<Rightarrow> MCPError.message e | NonError v \<Rightarrow> js_String h v);
          c = (case error of
                 ErrorInstance e \<Rightarrow> (case MCPError.code e of Some c \<Rightarrow> c | None \<Rightarrow> JStr ''TOOL_ERROR'')
               | NonError v \<Rightarrow> JStr ''TOOL_ERROR'');
          r = (c = JStr ''RATE_LIMIT'' \<or> c = JStr ''NETWORK_ERROR'');
          mcpError = MCPError ''Error'' msg (Some c) (Some r) (Some error)
      in \<lparr>code = c, message = MCPError.message mcpError, details = error, retryable = r,
          suggestions = getSuggestionsForError mcpError\<rparr>)"

text \<open>
  The handler: \<open>executePipeline\<close> goes to the pipeline engine, whose executor is
  \<open>executeTool\<close>; every other name goes to \<open>executeTool\<close>. The reply carries the result
  (the array of results for a pipeline) or the error payload with \<open>isError\<close>.
\<close>

definition callTool ::
  "'w host \<Rightarrow> string \<Rightarrow> jsval \<Rightarrow> 'w server_state \<Rightarrow> (ErrorPayload + jsval) \<times> 'w server_state" where
  "callTool h tool_name arguments s =
     (if tool_name = ''executePipeline'' then
        (case executePipeline h (executeTool h) arguments s of
           (Inr results, s') \<Rightarrow> (Inr (JArr results), s')
         | (Inl error, s') \<Rightarrow> (Inl (error_response h error), s'))
      else
        (case executeTool h tool_name arguments s of
           (Inr result, s') \<Rightarrow> (Inr result, s')
         | (Inl error, s') \<Rightarrow> (Inl (error_response h error), s')))"

text \<open>
  What a list of exits says: the results of the steps that ran, and the first value that
  reached a \<open>catch\<close> block.
\<close>

fun results_of :: "step_exit list \<Rightarrow> jsval list" where
  "results_of [] = []"
| "results_of (Completed result # xs) = result # results_of xs"
| "results_of (x # xs) = results_of xs"

fun caught_of :: "step_exit list \<Rightarrow> thrown option" where
  "caught_of [] = None"
| "caught_of (Caught error # xs) = Some error"
| "caught_of (x # xs) = caught_of xs"

section \<open>The run of a pipeline as the specification describes it\<close>

text \<open>
  Section 4.2 of the specification, step 4, written from its words and not from the
  loop of the source, to compare the two. The steps are taken in declaration order, and
  each meets one fate. (a) If its condition is present and false on the previous result,
  the step is skipped: nothing is dispatched and the previous result stays. (b) Otherwise
  its effective parameters are the transform of the previous result if a transform is
  present, and its own parameters if not. (c) The dispatcher is invoked with the tool
  name and these parameters. (d) If it succeeds, its result is the step's result and the
  next step's previous result. (e) If it fails, the run is aborted and no further step
  is taken. A condition or a transform that raises is a failure of its step. The run
  gives the fates of the steps it reached and the state it ends in.
\<close>

datatype step_fate = Skipped | Dispatched jsval | Failed thrown

definition condition_verdict :: "'w host \<Rightarrow> PipelineStep \<Rightarrow> jsval \<Rightarrow> thrown + bool" where
  "condition_verdict h step prevResult =
     (case condition step of
        None \<Rightarrow> Inr True
      | Some c \<Rightarrow> (case apply_function h c prevResult of
                     Inl error \<Rightarrow> Inl error
                   | Inr v \<Rightarrow> Inr (truthy v)))"

definition effective_params :: "'w host \<Rightarrow> PipelineStep \<Rightarrow> jsval \<Rightarrow> thrown + jsval" where
  "effective_params h step prevResult =
     (case transform step of
        None \<Rightarrow> Inr (params step)
      | Some t \<Rightarrow> apply_function h t prevResult)"

fun specified_run ::
  "'w host \<Rightarrow> 'w toolExecutor \<Rightarrow> PipelineStep list \<Rightarrow> jsval \<Rightarrow> 'w server_state
     \<Rightarrow> step_fate list \<times> 'w server_state" where
  "specified_run h dispatcher [] prevResult s = ([], s)"
| "specified_run h dispatcher (step # rest) prevResult s =
     (case condition_verdict h step prevResult of
        Inl error \<Rightarrow> ([Failed error], s)
      | Inr False \<Rightarrow> apfst ((#) Skipped) (specified_run h dispatcher rest prevResult s)
      | Inr True \<Rightarrow>
          (case effective_params h step prevResult of
             Inl error \<Rightarrow> ([Failed error], s)
           | Inr ps \<Rightarrow>
               (case dispatcher (toolName step) ps s of
                  (Inl error, s') \<Rightarrow> ([Failed error], s')
                | (Inr result, s') \<Rightarrow>
                    apfst ((#) (Dispatched result)) (specified_run h dispatcher rest result s'))))"

fun dispatched_results :: "step_fate list \<Rightarrow> jsval list" where
  "dispatched_results [] = []"
| "dispatched_results (Dispatched result # fs) = result # dispatched_results fs"
| "dispatched_results (f # fs) = dispatched_results fs"

fun failure_of :: "step_fate list \<Rightarrow> thrown option" where
  "failure_of [] = None"
| "failure_of (Failed error # fs) = Some error"
| "failure_of (f # fs) = failure_of fs"

definition skipped_steps :: "step_fate list \<Rightarrow> nat" where
  "skipped_steps fs = length (filter (\<lambda>f. f = Skipped) fs)"

section \<open>A stub host and sample requests\<close>

text \<open>
  A host for running the model on concrete requests. Its world is the list of the
  arguments the Linear client has been called with, the clock shows the length of that
  list. \<open>issues\<close> finds no issue, and fails with a rate limit for the team \<open>BUSY\<close>;
  \<open>createIssue\<close> rejects an empty title by raising a string. Function 0 tests that
  \<open>nodes\<close> of the previous result is non-empty, function 1 builds the arguments of a
  follow-up issue, function 2 raises a string.
\<close>

definition rate_limit_error :: MCPError where
  "rate_limit_error = MCPError ''LinearError'' ''slow down'' (Some (JStr ''RATE_LIMIT'')) None None"

definition stub_issues :: "jsval \<Rightarrow> jsval list \<Rightarrow> (thrown + jsval) \<times> jsval list" where
  "stub_issues args w =
     (if get_property args ''teamId'' = JStr ''BUSY'' then Inl (ErrorInstance rate_limit_error)
      else Inr (JObj [(''nodes'', JArr [])]),
      w @ [args])"

definition stub_createIssue :: "jsval \<Rightarrow> jsval list \<Rightarrow> (thrown + jsval) \<times> jsval list" where
  "stub_createIssue args w =
     (if get_property args ''title'' = JStr [] then Inl (NonError (JStr ''title is empty''))
      else Inr (JObj [(''id'', JStr ''ISSUE-1'')]),
      w @ [args])"

definition stub_apply :: "nat \<Rightarrow> jsval \<Rightarrow> thrown + jsval" where
  "stub_apply f v =
     (if f = 0 then
        (case get_property v ''nodes'' of
           JArr xs \<Rightarrow> Inr (JBool (xs \<noteq> []))
         | _ \<Rightarrow> Inl (ErrorInstance (MCPError ''TypeError'' ''Cannot read properties'' None None None)))
      else if f = 1 then Inr (JObj [(''title'', JStr ''follow-up''), (''teamId'', JStr ''T1'')])
      else if f = 2 then Inl (NonError (JStr ''boom''))
      else Inr JUndefined)"

definition stub_String :: "jsval \<Rightarrow> string" where
  "stub_String v = (case v of JStr s \<Rightarrow> s | _ \<Rightarrow> ''[object Object]'')"

definition stub_host :: "jsval list host" where
  "stub_host =
     \<lparr>Date_now = (\<lambda>w. (int (length w), w)),
      randomUUID = (\<lambda>w. (''uuid-1'', w)),
      client_issues = stub_issues,
      client_createIssue = stub_createIssue,
      apply_function = stub_apply,
      js_String = stub_String\<rparr>"

definition fresh_state :: "jsval list server_state" where
  "fresh_state = \<lparr>metrics = [], world = []\<rparr>"

definition list_then_create :: jsval where
  "list_then_create =
     JObj [(''steps'', JArr
       [JObj [(''toolName'', JStr ''listIssues''), (''params'', JObj [(''teamId'', JStr ''T1'')])],
        JObj [(''toolName'', JStr ''createIssue''), (''params'', JObj []),
              (''condition'', JFun 0), (''transform'', JFun 1)]])]"

definition busy_then_create :: jsval where
  "busy_then_create =
     JObj [(''steps'', JArr
       [JObj [(''toolName'', JStr ''listIssues''), (''params'', JObj [(''teamId'', JStr ''BUSY'')])],
        JObj [(''toolName'', JStr ''createIssue''),
              (''params'', JObj [(''title'', JStr ''t''), (''teamId'', JStr ''T1'')])]])]"

definition unknown_tool_pipeline :: jsval where
  "unknown_tool_pipeline =
     JObj [(''steps'', JArr [JObj [(''toolName'', JStr ''deleteIssue''), (''params'', JObj [])]])]"

definition guarded_create :: PipelineStep where
  "guarded_create =
     \<lparr>toolName = ''createIssue'', params = JObj [], condition = Some 0, transform = Some 1\<rparr>"

definition list_step :: PipelineStep where
  "list_step =
     \<lparr>toolName = ''listIssues'', params = JObj [(''teamId'', JStr ''T1'')], condition = None,
      transform = None\<rparr>"

definition raising_condition_step :: PipelineStep where
  "raising_condition_step =
     \<lparr>toolName = ''listIssues'', params = JObj [], condition = Some 2, transform = None\<rparr>"

definition raising_transform_step :: PipelineStep where
  "raising_transform_step =
     \<lparr>toolName = ''listIssues'', params = JObj [], condition = None, transform = Some 2\<rparr>"

definition unknown_tool_step :: PipelineStep where
  "unknown_tool_step =
     \<lparr>toolName = ''deleteIssue'', params = JObj [], condition = None, transform = None\<rparr>"

definition no_issues :: jsval where
  "no_issues = JObj [(''nodes'', JArr [])]"

definition malformed_pipeline :: jsval where
  "malformed_pipeline = JObj [(''steps'', JArr [JObj [(''toolName'', JNum (Finite 1))]])]"

definition missing_title :: jsval where
  "missing_title = JObj [(''teamId'', JStr ''T1'')]"

definition wrong_priority :: jsval where
  "wrong_priority =
     JObj [(''title'', JStr ''a''), (''teamId'', JStr ''T1''), (''priority'', JStr ''high'')]"

definition list_args :: jsval where
  "list_args = JObj [(''teamId'', JStr ''T1''), (''first'', JNum (Finite 10))]"

definition create_args :: jsval where
  "create_args = JObj [(''title'', JStr ''follow-up''), (''teamId'', JStr ''T1'')]"

definition default_suggestions :: "string list" where
  "default_suggestions = [''Check input parameters'', ''Consult Linear API documentation'']"

definition busy_args :: jsval where
  "busy_args = JObj [(''teamId'', JStr ''BUSY'')]"

definition promise_like :: jsval where
  "promise_like = JObj [(''then'', JFun 3), (''catch'', JFun 3)]"

definition empty_title :: jsval where
  "empty_title = JObj [(''title'', JStr []), (''teamId'', JStr ''T1'')]"

definition sample_metric :: MetricInput where
  "sample_metric =
     \<lparr>requestDuration = 12, toolName = ''listIssues'', success = True, errorType = None,
      retryCount = 0\<rparr>"

section \<open>Unfolding the model on concrete requests\<close>

lemmas model_defs =
  PipelineSchema_safeParse_def StepSchema_parse_def MCPContextSchema_parse_def
  z_optional_def z_default_def z_any_def thenable_def
  isValidListIssuesArgs_def isValidIssueCreateArgs_def
  ListIssuesInputSchema_success_def CreateIssueInputSchema_success_def
  executePipeline_def executeTool_def callTool_def try_step_def make_context_def loop_start_def
  MetricsCollector_record_def with_timestamp_def maxMetricsCount_def slice_last_def
  pipelineStepError_def error_response_def getSuggestionsForError_def new_Error_def
  errorType_of_def Let_def

lemmas stub_defs =
  stub_host_def stub_issues_def stub_createIssue_def stub_apply_def stub_String_def
  fresh_state_def rate_limit_error_def
  list_then_create_def busy_then_create_def unknown_tool_pipeline_def

lemmas step_defs =
  guarded_create_def list_step_def raising_condition_step_def raising_transform_step_def
  unknown_tool_step_def no_issues_def

lemmas args_defs = missing_title_def wrong_priority_def list_args_def create_args_def
  default_suggestions_def busy_args_def empty_title_def promise_like_def

section \<open>Properties of the metrics log\<close>

lemma truncate_with_timestamp: "MetricInput.truncate (with_timestamp m t) = m"
  by (cases m) (simp add: with_timestamp_def MetricInput.truncate_def)

lemma slice_last_short: "length xs \<le> n \<Longrightarrow> slice_last n xs = xs"
  by (simp add: slice_last_def)

lemma length_slice_last: "length (slice_last n xs) = min n (length xs)"
  by (simp add: slice_last_def)

lemma slice_last_append: "slice_last n (slice_last n xs @ ys) = slice_last n (xs @ ys)"
proof (cases "length xs \<le> n")
  case True
  then show ?thesis by (simp add: slice_last_short)
next
  case False
  then have "length xs - n + (n + length ys - n) = length xs + length ys - n" by simp
  with False show ?thesis
    by (simp add: slice_last_def add.commute)
qed

lemma map_slice_last: "map f (slice_last n xs) = slice_last n (map f xs)"
  by (simp add: slice_last_def drop_map)

lemma record_metrics_untimed:
  "map MetricInput.truncate (metrics (MetricsCollector_record h m s)) =
     slice_last maxMetricsCount (map MetricInput.truncate (metrics s) @ [m])"
proof -
  obtain now w where dn: "Date_now h (world s) = (now, w)" by (cases "Date_now h (world s)")
  let ?pushed = "metrics s @ [with_timestamp m now]"
  have "metrics (MetricsCollector_record h m s) = slice_last maxMetricsCount ?pushed"
    by (simp add: MetricsCollector_record_def dn slice_last_short Let_def)
  then have "map MetricInput.truncate (metrics (MetricsCollector_record h m s)) =
             slice_last maxMetricsCount (map MetricInput.truncate ?pushed)"
    by (simp only: map_slice_last)
  then show ?thesis by (simp add: truncate_with_timestamp)
qed

lemma record_all_untimed:
  "length (metrics s) \<le> maxMetricsCount \<Longrightarrow>
   map MetricInput.truncate (metrics (record_all h ms s)) =
     slice_last maxMetricsCount (map MetricInput.truncate (metrics s) @ ms)"
proof (induction ms arbitrary: s)
  case Nil
  then show ?case by (simp add: record_all_def slice_last_short)
next
  case (Cons m ms)
  let ?s1 = "MetricsCollector_record h m s"
  let ?old = "map MetricInput.truncate (metrics s)"
  have "length (map MetricInput.truncate (metrics ?s1)) \<le> maxMetricsCount"
    by (simp only: record_metrics_untimed length_slice_last min.cobounded1)
  then have bound: "length (metrics ?s1) \<le> maxMetricsCount" by simp
  have "map MetricInput.truncate (metrics (record_all h (m # ms) s)) =
        map MetricInput.truncate (metrics (record_all h ms ?s1))"
    by (simp add: record_all_def)
  also have "\<dots> = slice_last maxMetricsCount (slice_last maxMetricsCount (?old @ [m]) @ ms)"
    by (simp only: Cons.IH [OF bound] record_metrics_untimed)
  also have "\<dots> = slice_last maxMetricsCount ((?old @ [m]) @ ms)"
    by (simp only: slice_last_append)
  finally show ?case by simp
qed

text \<open>
  C7. Starting from an empty log, after any sequence \<open>ms\<close> of \<open>record\<close> calls the log
  holds at most 1000 entries, and what \<open>getMetrics\<close> returns is, timestamps aside, \<open>ms\<close>
  without its first \<open>length ms - 1000\<close> elements: all of \<open>ms\<close> in insertion order when
  there are at most 1000, the most recent 1000 otherwise.
\<close>

theorem metrics_log_sliding_window:
  "length (MetricsCollector_getMetrics (record_all h ms (MetricsCollector_reset s))) \<le> 1000 \<and>
   map MetricInput.truncate (MetricsCollector_getMetrics (record_all h ms (MetricsCollector_reset s)))
     = drop (length ms - 1000) ms"
proof -
  let ?log = "MetricsCollector_getMetrics (record_all h ms (MetricsCollector_reset s))"
  have eq: "map MetricInput.truncate ?log = slice_last maxMetricsCount ms"
    using record_all_untimed [of "MetricsCollector_reset s" h ms]
    by (simp add: MetricsCollector_getMetrics_def MetricsCollector_reset_def)
  have "length (map MetricInput.truncate ?log) \<le> 1000"
    by (simp only: eq length_slice_last) (simp add: maxMetricsCount_def)
  then have "length ?log \<le> 1000" by simp
  moreover have "map MetricInput.truncate ?log = drop (length ms - 1000) ms"
    by (simp only: eq) (simp add: slice_last_def maxMetricsCount_def)
  ultimately show ?thesis by blast
qed

theorem metrics_log_sliding_window_witness:
  "length (MetricsCollector_getMetrics
      (record_all stub_host [sample_metric, sample_metric] (MetricsCollector_reset fresh_state)))
     \<le> 1000 \<and>
   map MetricInput.truncate (MetricsCollector_getMetrics
      (record_all stub_host [sample_metric, sample_metric] (MetricsCollector_reset fresh_state)))
     = [sample_metric, sample_metric]"
  using metrics_log_sliding_window [of stub_host "[sample_metric, sample_metric]" fresh_state]
  by simp

section \<open>Properties of the dispatcher\<close>

lemma metrics_record:
  "metrics (MetricsCollector_record h m s) =
     slice_last maxMetricsCount (metrics s @ [with_timestamp m (fst (Date_now h (world s)))])"
  by (simp add: MetricsCollector_record_def Let_def slice_last_short split: prod.splits)

lemma last_slice_last_snoc: "0 < n \<Longrightarrow> last (slice_last n (xs @ [x])) = x"
  by (simp add: slice_last_def)

lemma last_metrics_record:
  "last (metrics (MetricsCollector_record h m s)) = with_timestamp m (fst (Date_now h (world s)))"
  by (simp add: metrics_record last_slice_last_snoc maxMetricsCount_def)

lemma metrics_record_last:
  "metrics (MetricsCollector_record h m s) =
     slice_last maxMetricsCount (metrics s @ [last (metrics (MetricsCollector_record h m s))])"
  by (simp add: metrics_record last_slice_last_snoc maxMetricsCount_def)

lemma last_record_fields:
  "MetricInput.toolName (last (metrics (MetricsCollector_record h m s))) = MetricInput.toolName m"
  "MetricInput.success (last (metrics (MetricsCollector_record h m s))) = MetricInput.success m"
  "MetricInput.errorType (last (metrics (MetricsCollector_record h m s))) = MetricInput.errorType m"
  "MetricInput.retryCount (last (metrics (MetricsCollector_record h m s))) = MetricInput.retryCount m"
  by (simp_all add: last_metrics_record with_timestamp_def)

lemma executeTool_outcome:
  "fst (executeTool h nm args s) =
     fst (if nm = ''listIssues'' then
               (if \<not> isValidListIssuesArgs args
                then (Inl (ErrorInstance (new_Error ''Invalid list issues arguments'')),
                      snd (Date_now h (world s)))
                else client_issues h args (snd (Date_now h (world s))))
             else if nm = ''createIssue'' then
               (if \<not> isValidIssueCreateArgs args
                then (Inl (ErrorInstance (new_Error ''Invalid issue creation arguments'')),
                      snd (Date_now h (world s)))
                else client_createIssue h args (snd (Date_now h (world s))))
             else (Inl (ErrorInstance (new_Error (''Unknown tool: '' @ nm))),
                   snd (Date_now h (world s))))"
  by (simp add: executeTool_def Let_def split: prod.splits sum.splits)

text \<open>
  C6. Every call of \<open>executeTool\<close>, whatever its outcome, leaves the log as one \<open>record\<close>
  call makes it: the old log with one new last entry, cut to the last 1000. That entry
  carries the tool's name, \<open>success\<close> true exactly when the call returned a result,
  \<open>retryCount\<close> 0, and an \<open>errorType\<close> exactly when the call raised: the name of the
  raised \<open>Error\<close>, or \<open>UnknownError\<close> for a raised value that is no \<open>Error\<close>.
\<close>

theorem executeTool_records_one_metric:
  "metrics (snd (executeTool h nm args s)) =
     slice_last maxMetricsCount (metrics s @ [last (metrics (snd (executeTool h nm args s)))]) \<and>
   MetricInput.toolName (last (metrics (snd (executeTool h nm args s)))) = nm \<and>
   MetricInput.success (last (metrics (snd (executeTool h nm args s)))) =
     (case fst (executeTool h nm args s) of Inl error \<Rightarrow> False | Inr result \<Rightarrow> True) \<and>
   MetricInput.errorType (last (metrics (snd (executeTool h nm args s)))) =
     (case fst (executeTool h nm args s) of
        Inl (ErrorInstance e) \<Rightarrow> Some (MCPError.name e)
      | Inl (NonError v) \<Rightarrow> Some ''UnknownError''
      | Inr result \<Rightarrow> None) \<and>
   MetricInput.retryCount (last (metrics (snd (executeTool h nm args s)))) = 0"
proof -
  obtain t0 w0 where a: "Date_now h (world s) = (t0, w0)" by (cases "Date_now h (world s)")
  define attempt where "attempt =
            (if nm = ''listIssues'' then
               (if \<not> isValidListIssuesArgs args
                then (Inl (ErrorInstance (new_Error ''Invalid list issues arguments'')), w0)
                else client_issues h args w0)
             else if nm = ''createIssue'' then
               (if \<not> isValidIssueCreateArgs args
                then (Inl (ErrorInstance (new_Error ''Invalid issue creation arguments'')), w0)
                else client_createIssue h args w0)
             else (Inl (ErrorInstance (new_Error (''Unknown tool: '' @ nm))), w0))"
  obtain outcome w1 where b: "attempt = (outcome, w1)" by (cases attempt)
  obtain t1 w2 where c: "Date_now h w1 = (t1, w2)" by (cases "Date_now h w1")
  have run: "executeTool h nm args s =
     (case outcome of
           Inr result \<Rightarrow>
             (Inr result,
              MetricsCollector_record h
                \<lparr>requestDuration = t1 - t0, toolName = nm, success = True,
                 errorType = None, retryCount = 0\<rparr>
                (s\<lparr>world := w2\<rparr>))
         | Inl error \<Rightarrow>
             (Inl error,
              MetricsCollector_record h
                \<lparr>requestDuration = t1 - t0, toolName = nm, success = False,
                 errorType = Some (errorType_of error), retryCount = 0\<rparr>
                (s\<lparr>world := w2\<rparr>)))"
    using a b c unfolding executeTool_def attempt_def by simp
  define m where "m =
     \<lparr>requestDuration = t1 - t0, toolName = nm,
      success = (case outcome of Inl error \<Rightarrow> False | Inr result \<Rightarrow> True),
      errorType = (case outcome of Inl error \<Rightarrow> Some (errorType_of error) | Inr result \<Rightarrow> None),
      retryCount = 0\<rparr>"
  have out: "fst (executeTool h nm args s) = outcome"
    unfolding run by (cases outcome) simp_all
  have fin: "snd (executeTool h nm args s) = MetricsCollector_record h m (s\<lparr>world := w2\<rparr>)"
    unfolding run m_def by (cases outcome) simp_all
  have log: "metrics (MetricsCollector_record h m (s\<lparr>world := w2\<rparr>)) =
     slice_last maxMetricsCount
       (metrics s @ [last (metrics (MetricsCollector_record h m (s\<lparr>world := w2\<rparr>)))])"
    using metrics_record_last [of h m "s\<lparr>world := w2\<rparr>"] by simp
  have fields:
    "MetricInput.toolName m = nm"
    "MetricInput.success m = (case outcome of Inl error \<Rightarrow> False | Inr result \<Rightarrow> True)"
    "MetricInput.errorType m =
       (case outcome of
          Inl (ErrorInstance e) \<Rightarrow> Some (MCPError.name e)
        | Inl (NonError v) \<Rightarrow> Some ''UnknownError''
        | Inr result \<Rightarrow> None)"
    "MetricInput.retryCount m = 0"
    by (simp_all add: m_def errorType_of_def split: sum.splits thrown.splits)
  show ?thesis
    unfolding out fin last_record_fields fields using log by blast
qed

theorem executeTool_records_one_metric_witness:
  "metrics (snd (executeTool stub_host ''listIssues'' list_args fresh_state)) =
     [last (metrics (snd (executeTool stub_host ''listIssues'' list_args fresh_state)))] \<and>
   MetricInput.success
     (last (metrics (snd (executeTool stub_host ''listIssues'' list_args fresh_state)))) \<and>
   MetricInput.errorType
     (last (metrics (snd (executeTool stub_host ''listIssues'' list_args fresh_state)))) = None \<and>
   \<not> MetricInput.success
     (last (metrics (snd (executeTool stub_host ''listIssues'' busy_args fresh_state)))) \<and>
   MetricInput.errorType
     (last (metrics (snd (executeTool stub_host ''listIssues'' busy_args fresh_state)))) =
     Some ''LinearError'' \<and>
   MetricInput.errorType
     (last (metrics (snd (executeTool stub_host ''createIssue'' empty_title fresh_state)))) =
     Some ''UnknownError'' \<and>
   MetricInput.errorType
     (last (metrics (snd (executeTool stub_host ''createIssue'' missing_title fresh_state)))) =
     Some ''Error'' \<and>
   MetricInput.retryCount
     (last (metrics (snd (executeTool stub_host ''createIssue'' missing_title fresh_state)))) = 0"
proof -
  have ok: "fst (executeTool stub_host ''listIssues'' list_args fresh_state) = Inr no_issues"
    by (simp add: executeTool_outcome model_defs stub_defs args_defs no_issues_def)
  have busy: "fst (executeTool stub_host ''listIssues'' busy_args fresh_state) =
      Inl (ErrorInstance (MCPError ''LinearError'' ''slow down'' (Some (JStr ''RATE_LIMIT''))
             None None))"
    by (simp add: executeTool_outcome model_defs stub_defs args_defs)
  have empty: "fst (executeTool stub_host ''createIssue'' empty_title fresh_state) =
      Inl (NonError (JStr ''title is empty''))"
    by (simp add: executeTool_outcome model_defs stub_defs args_defs)
  have bad: "fst (executeTool stub_host ''createIssue'' missing_title fresh_state) =
      Inl (ErrorInstance (MCPError ''Error'' ''Invalid issue creation arguments'' None None None))"
    by (simp add: executeTool_outcome model_defs stub_defs args_defs)
  have start: "metrics fresh_state = []"
    by (simp add: fresh_state_def)
  show ?thesis
    using executeTool_records_one_metric [of stub_host "''listIssues''" list_args fresh_state]
      executeTool_records_one_metric [of stub_host "''listIssues''" busy_args fresh_state]
      executeTool_records_one_metric [of stub_host "''createIssue''" empty_title fresh_state]
      executeTool_records_one_metric [of stub_host "''createIssue''" missing_title fresh_state]
    unfolding ok busy empty bad start
    by (simp add: slice_last_def maxMetricsCount_def)
qed

section \<open>Properties of the pipeline loop\<close>

lemma try_step_skip:
  "condition step = Some c \<Longrightarrow> apply_function h c prevResult = Inr v \<Longrightarrow> \<not> truthy v \<Longrightarrow>
   try_step h toolExecutor step prevResult s = (Continue, s)"
  by (simp add: try_step_def)




text \<open>
  C5. A step whose condition is present and returns a falsy value on \<open>prevResult\<close>
  leaves its iteration by \<open>continue\<close> with the state unchanged, whatever the executor
  is: the dispatcher is not called and no metric is recorded. The loop goes on with the
  remaining steps, with the same \<open>prevResult\<close> and the same results.
\<close>

theorem false_condition_skips_step:
  assumes "condition step = Some c"
    and "apply_function h c prevResult = Inr v"
    and "\<not> truthy v"
  shows "try_step h toolExecutor step prevResult s = (Continue, s) \<and>
         run_steps h toolExecutor (step # rest) prevResult results s =
           run_steps h toolExecutor rest prevResult results s \<and>
         step_exits h toolExecutor (step # rest) prevResult s =
           Continue # step_exits h toolExecutor rest prevResult s"
  using try_step_skip [OF assms] by simp

theorem false_condition_skips_step_witness:
  "try_step stub_host (executeTool stub_host) guarded_create no_issues fresh_state =
     (Continue, fresh_state) \<and>
   run_steps stub_host (executeTool stub_host) [guarded_create, list_step] no_issues [no_issues]
       fresh_state =
     run_steps stub_host (executeTool stub_host) [list_step] no_issues [no_issues] fresh_state \<and>
   step_exits stub_host (executeTool stub_host) [guarded_create, list_step] no_issues fresh_state =
     Continue # step_exits stub_host (executeTool stub_host) [list_step] no_issues fresh_state"
proof -
  have c: "condition guarded_create = Some 0"
    by (simp add: guarded_create_def)
  have v: "apply_function stub_host 0 no_issues = Inr (JBool False)"
    by (simp add: stub_defs no_issues_def)
  have f: "\<not> truthy (JBool False)"
    by simp
  show ?thesis
    using false_condition_skips_step [OF c v f] by blast
qed



lemma run_steps_by_exits:
  "fst (run_steps h ex sts prev results s) =
     (case caught_of (step_exits h ex sts prev s) of
        None \<Rightarrow> Inr (results @ results_of (step_exits h ex sts prev s))
      | Some error \<Rightarrow> Inl (ErrorInstance (pipelineStepError h error)))"
proof (induction sts arbitrary: prev results s)
  case Nil
  show ?case by simp
next
  case (Cons step rest)
  obtain x s' where ts: "try_step h ex step prev s = (x, s')"
    by (cases "try_step h ex step prev s")
  show ?case
    by (cases x) (simp_all add: ts Cons.IH split: option.splits)
qed

lemma try_step_as_specified:
  "try_step h ex step prev s =
     (case condition_verdict h step prev of
        Inl error \<Rightarrow> (Caught error, s)
      | Inr False \<Rightarrow> (Continue, s)
      | Inr True \<Rightarrow>
          (case effective_params h step prev of
             Inl error \<Rightarrow> (Caught error, s)
           | Inr ps \<Rightarrow>
               (case ex (toolName step) ps s of
                  (Inl error, s') \<Rightarrow> (Caught error, s')
                | (Inr result, s') \<Rightarrow> (Completed result, s'))))"
  by (auto simp add: try_step_def condition_verdict_def effective_params_def
      split: option.splits sum.splits prod.splits bool.splits)

lemma run_steps_as_specified:
  "run_steps h ex sts prev results s =
     (case failure_of (fst (specified_run h ex sts prev s)) of
        None \<Rightarrow>
          (Inr (results @ dispatched_results (fst (specified_run h ex sts prev s))),
           snd (specified_run h ex sts prev s))
      | Some error \<Rightarrow>
          (Inl (ErrorInstance (pipelineStepError h error)), snd (specified_run h ex sts prev s)))"
proof (induction sts arbitrary: prev results s)
  case Nil
  show ?case by simp
next
  case (Cons step rest)
  show ?case
    by (simp add: try_step_as_specified Cons.IH
        split: sum.splits bool.splits prod.splits option.splits)
qed

lemma specified_run_length:
  "length (fst (specified_run h ex sts prev s)) \<le> length sts"
proof (induction sts arbitrary: prev s)
  case Nil
  show ?case by simp
next
  case (Cons step rest)
  show ?case
    by (simp add: Cons.IH split: sum.splits bool.splits prod.splits)
qed

lemma specified_run_complete:
  "failure_of (fst (specified_run h ex sts prev s)) = None \<Longrightarrow>
   length (fst (specified_run h ex sts prev s)) = length sts"
proof (induction sts arbitrary: prev s)
  case Nil
  show ?case by simp
next
  case (Cons step rest)
  then show ?case
    by (simp add: split: sum.splits bool.splits prod.splits)
qed

lemma dispatched_plus_skipped:
  "failure_of fs = None \<Longrightarrow> length (dispatched_results fs) + skipped_steps fs = length fs"
  by (induction fs rule: dispatched_results.induct) (simp_all add: skipped_steps_def)

lemma run_steps_ignores_rest:
  "failure_of (fst (specified_run h ex sts prev s)) \<noteq> None \<Longrightarrow>
   run_steps h ex (take (length (fst (specified_run h ex sts prev s))) sts @ other) prev results s =
     run_steps h ex sts prev results s"
proof (induction sts arbitrary: prev results s)
  case Nil
  then show ?case by simp
next
  case (Cons step rest)
  then show ?case
    by (simp add: try_step_as_specified split: sum.splits bool.splits prod.splits)
qed

section \<open>Properties of \<open>executePipeline\<close>\<close>

lemma executePipeline_valid:
  "PipelineSchema_safeParse pipelineInput = Some pipeline \<Longrightarrow>
   executePipeline h ex pipelineInput s =
     run_steps h ex (steps pipeline) JNull [] (loop_start h pipeline s)"
  by (simp add: executePipeline_def loop_start_def split: prod.splits)

lemma parse_unknown_tool_pipeline:
  "PipelineSchema_safeParse unknown_tool_pipeline =
     Some \<lparr>steps = [\<lparr>toolName = ''deleteIssue'', params = JObj [], condition = None,
                      transform = None\<rparr>], context' = None\<rparr>"
  by (simp add: unknown_tool_pipeline_def model_defs)

lemma parse_list_then_create:
  "PipelineSchema_safeParse list_then_create =
     Some \<lparr>steps = [list_step, guarded_create], context' = None\<rparr>"
  by (simp add: model_defs stub_defs step_defs)

lemma parse_busy_then_create:
  "PipelineSchema_safeParse busy_then_create =
     Some \<lparr>steps =
        [\<lparr>toolName = ''listIssues'', params = JObj [(''teamId'', JStr ''BUSY'')],
          condition = None, transform = None\<rparr>,
         \<lparr>toolName = ''createIssue'',
          params = JObj [(''title'', JStr ''t''), (''teamId'', JStr ''T1'')],
          condition = None, transform = None\<rparr>], context' = None\<rparr>"
  by (simp add: model_defs stub_defs)

text \<open>
  C4. The loop of the source does what the specification describes. For a valid
  pipeline in which no step fails, \<open>executePipeline\<close> returns the results of the steps
  that were dispatched, in the order of the steps; every step has met its fate, and the
  length of the result is the number of steps minus the number of steps skipped by their
  condition. For a valid pipeline in which a step fails, the call raises instead of
  returning results, it ends in the state in which the failing step left the run, so
  no further step is dispatched, and the steps after the failing one play no part: with
  any other steps in their place the outcome and the final state are the same.
\<close>

theorem executePipeline_results:
  assumes "PipelineSchema_safeParse pipelineInput = Some pipeline"
  shows
    "(failure_of
        (fst (specified_run h toolExecutor (steps pipeline) JNull (loop_start h pipeline s))) = None
        \<longrightarrow>
        executePipeline h toolExecutor pipelineInput s =
          (Inr (dispatched_results
                  (fst (specified_run h toolExecutor (steps pipeline) JNull
                          (loop_start h pipeline s)))),
           snd (specified_run h toolExecutor (steps pipeline) JNull (loop_start h pipeline s))) \<and>
        length (fst (specified_run h toolExecutor (steps pipeline) JNull (loop_start h pipeline s))) =
          length (steps pipeline) \<and>
        length (dispatched_results
                  (fst (specified_run h toolExecutor (steps pipeline) JNull
                          (loop_start h pipeline s)))) =
          length (steps pipeline) -
          skipped_steps
            (fst (specified_run h toolExecutor (steps pipeline) JNull (loop_start h pipeline s)))) \<and>
     (failure_of
        (fst (specified_run h toolExecutor (steps pipeline) JNull (loop_start h pipeline s))) =
          Some error
        \<longrightarrow>
        executePipeline h toolExecutor pipelineInput s =
          (Inl (ErrorInstance (pipelineStepError h error)),
           snd (specified_run h toolExecutor (steps pipeline) JNull (loop_start h pipeline s))) \<and>
        length (fst (specified_run h toolExecutor (steps pipeline) JNull (loop_start h pipeline s)))
          \<le> length (steps pipeline) \<and>
        (\<forall>other.
           run_steps h toolExecutor
             (take (length (fst (specified_run h toolExecutor (steps pipeline) JNull
                                   (loop_start h pipeline s))))
                (steps pipeline) @ other)
             JNull [] (loop_start h pipeline s) =
           executePipeline h toolExecutor pipelineInput s))"
proof (intro conjI impI allI)
  let ?run = "specified_run h toolExecutor (steps pipeline) JNull (loop_start h pipeline s)"
  assume ok: "failure_of (fst ?run) = None"
  show "executePipeline h toolExecutor pipelineInput s =
          (Inr (dispatched_results (fst ?run)), snd ?run)"
    using ok by (simp add: executePipeline_valid [OF assms] run_steps_as_specified)
  show len: "length (fst ?run) = length (steps pipeline)"
    using ok by (rule specified_run_complete)
  show "length (dispatched_results (fst ?run)) = length (steps pipeline) - skipped_steps (fst ?run)"
    using dispatched_plus_skipped [OF ok] len by simp
next
  let ?run = "specified_run h toolExecutor (steps pipeline) JNull (loop_start h pipeline s)"
  assume bad: "failure_of (fst ?run) = Some error"
  show "executePipeline h toolExecutor pipelineInput s =
          (Inl (ErrorInstance (pipelineStepError h error)), snd ?run)"
    using bad by (simp add: executePipeline_valid [OF assms] run_steps_as_specified)
  show "length (fst ?run) \<le> length (steps pipeline)"
    by (rule specified_run_length)
next
  fix other
  let ?run = "specified_run h toolExecutor (steps pipeline) JNull (loop_start h pipeline s)"
  assume bad: "failure_of (fst ?run) = Some error"
  then have "failure_of (fst ?run) \<noteq> None" by simp
  from run_steps_ignores_rest [OF this]
  show "run_steps h toolExecutor (take (length (fst ?run)) (steps pipeline) @ other) JNull []
          (loop_start h pipeline s) =
        executePipeline h toolExecutor pipelineInput s"
    by (simp add: executePipeline_valid [OF assms])
qed

theorem executePipeline_results_witness:
  "fst (executePipeline stub_host (executeTool stub_host) list_then_create fresh_state) =
     Inr [no_issues] \<and>
   length [no_issues] =
     length [list_step, guarded_create] - skipped_steps [Dispatched no_issues, Skipped] \<and>
   fst (executePipeline stub_host (executeTool stub_host) busy_then_create fresh_state) =
     Inl (ErrorInstance (pipelineStepError stub_host (ErrorInstance rate_limit_error))) \<and>
   world (snd (executePipeline stub_host (executeTool stub_host) busy_then_create fresh_state)) =
     [JObj [(''teamId'', JStr ''BUSY'')]]"
proof -
  let ?p = "\<lparr>steps = [list_step, guarded_create], context' = None\<rparr>"
  let ?q = "\<lparr>steps =
        [\<lparr>toolName = ''listIssues'', params = JObj [(''teamId'', JStr ''BUSY'')],
          condition = None, transform = None\<rparr>,
         \<lparr>toolName = ''createIssue'',
          params = JObj [(''title'', JStr ''t''), (''teamId'', JStr ''T1'')],
          condition = None, transform = None\<rparr>], context' = None\<rparr>"
  have e1: "fst (specified_run stub_host (executeTool stub_host) (steps ?p) JNull
              (loop_start stub_host ?p fresh_state)) = [Dispatched no_issues, Skipped]"
    by (simp add: model_defs stub_defs step_defs condition_verdict_def effective_params_def)
  have e2: "fst (specified_run stub_host (executeTool stub_host) (steps ?q) JNull
              (loop_start stub_host ?q fresh_state)) = [Failed (ErrorInstance rate_limit_error)]"
    by (simp add: model_defs stub_defs condition_verdict_def effective_params_def)
  have w2: "world (snd (specified_run stub_host (executeTool stub_host) (steps ?q) JNull
              (loop_start stub_host ?q fresh_state))) = [JObj [(''teamId'', JStr ''BUSY'')]]"
    by (simp add: model_defs stub_defs condition_verdict_def effective_params_def)
  have one: "fst (executePipeline stub_host (executeTool stub_host) list_then_create fresh_state) =
     Inr [no_issues] \<and>
     length [no_issues] =
       length [list_step, guarded_create] - skipped_steps [Dispatched no_issues, Skipped]"
    using executePipeline_results [OF parse_list_then_create, of stub_host "executeTool stub_host"
        fresh_state]
    unfolding e1 by simp
  have two: "fst (executePipeline stub_host (executeTool stub_host) busy_then_create fresh_state) =
       Inl (ErrorInstance (pipelineStepError stub_host (ErrorInstance rate_limit_error))) \<and>
     world (snd (executePipeline stub_host (executeTool stub_host) busy_then_create fresh_state)) =
       [JObj [(''teamId'', JStr ''BUSY'')]]"
    using executePipeline_results [OF parse_busy_then_create, of stub_host "executeTool stub_host"
        fresh_state "ErrorInstance rate_limit_error"] w2
    unfolding e2 by simp
  show ?thesis using one two by blast
qed

text \<open>
  C1, as the code has it. When a step of a valid pipeline fails with the raised value
  \<open>error\<close>, \<open>executePipeline\<close> raises an \<open>Error\<close> whose message is that of \<open>error\<close>
  (\<open>String(error)\<close> when it is no \<open>Error\<close>), whose \<open>retryable\<close> is false, and whose code
  is the code of \<open>error\<close> when \<open>error\<close> is an \<open>Error\<close> with a \<open>code\<close> property and
  \<open>PIPELINE_STEP_ERROR\<close> otherwise.
\<close>

theorem failed_step_error:
  assumes "PipelineSchema_safeParse pipelineInput = Some pipeline"
    and "caught_of (step_exits h toolExecutor (steps pipeline) JNull (loop_start h pipeline s))
           = Some error"
  shows "fst (executePipeline h toolExecutor pipelineInput s) =
           Inl (ErrorInstance
             (MCPError ''Error''
                (case error of
                   ErrorInstance e \<Rightarrow> MCPError.message e | NonError v \<Rightarrow> js_String h v)
                (Some (case error of
                         ErrorInstance e \<Rightarrow>
                           (case MCPError.code e of
                              Some c \<Rightarrow> c | None \<Rightarrow> JStr ''PIPELINE_STEP_ERROR'')
                       | NonError v \<Rightarrow> JStr ''PIPELINE_STEP_ERROR''))
                (Some False) None))"
  using assms
  by (simp add: executePipeline_valid run_steps_by_exits pipelineStepError_def)

theorem failed_step_error_witness:
  "fst (executePipeline stub_host (executeTool stub_host) unknown_tool_pipeline fresh_state) =
     Inl (ErrorInstance (MCPError ''Error'' ''Unknown tool: deleteIssue''
            (Some (JStr ''PIPELINE_STEP_ERROR'')) (Some False) None))"
proof -
  have caught:
    "caught_of (step_exits stub_host (executeTool stub_host)
       (steps \<lparr>steps = [\<lparr>toolName = ''deleteIssue'', params = JObj [], condition = None,
                         transform = None\<rparr>], context' = None\<rparr>)
       JNull
       (loop_start stub_host
          \<lparr>steps = [\<lparr>toolName = ''deleteIssue'', params = JObj [], condition = None,
                      transform = None\<rparr>], context' = None\<rparr> fresh_state)) =
     Some (ErrorInstance (MCPError ''Error'' ''Unknown tool: deleteIssue'' None None None))"
    by (simp add: model_defs stub_defs)
  show ?thesis
    using failed_step_error [OF parse_unknown_tool_pipeline caught] by simp
qed

theorem failed_step_error_counterexample:
  "fst (executePipeline stub_host (executeTool stub_host) busy_then_create fresh_state) =
     Inl (ErrorInstance (MCPError ''Error'' ''slow down'' (Some (JStr ''RATE_LIMIT''))
            (Some False) None)) \<and>
   fst (callTool stub_host ''executePipeline'' busy_then_create fresh_state) =
     Inl \<lparr>code = JStr ''RATE_LIMIT'', message = ''slow down'',
          details = ErrorInstance (MCPError ''Error'' ''slow down'' (Some (JStr ''RATE_LIMIT''))
                      (Some False) None),
          retryable = True,
          suggestions = [''Wait and retry later'', ''Reduce request frequency'']\<rparr>"
  by (simp add: model_defs stub_defs)

text \<open>
  C2, as the code has it. An input that \<open>PipelineSchema\<close> rejects makes
  \<open>executePipeline\<close> raise \<open>Error('Invalid pipeline configuration')\<close>, which has no
  \<open>code\<close> property, and leaves the state as it was, whatever the executor is: no step
  is dispatched and no metric is recorded. The handler reports the failure with the code
  \<open>TOOL_ERROR\<close>.
\<close>

theorem invalid_pipeline_rejected:
  assumes "PipelineSchema_safeParse pipelineInput = None"
  shows "executePipeline h toolExecutor pipelineInput s =
           (Inl (ErrorInstance (MCPError ''Error'' ''Invalid pipeline configuration'' None None None)),
            s) \<and>
         callTool h ''executePipeline'' pipelineInput s =
           (Inl \<lparr>code = JStr ''TOOL_ERROR'', message = ''Invalid pipeline configuration'',
                 details = ErrorInstance
                   (MCPError ''Error'' ''Invalid pipeline configuration'' None None None),
                 retryable = False,
                 suggestions = [''Check input parameters'', ''Consult Linear API documentation'']\<rparr>,
            s)"
  using assms
  by (simp add: executePipeline_def callTool_def error_response_def getSuggestionsForError_def
      new_Error_def)

theorem invalid_pipeline_rejected_witness:
  "executePipeline stub_host (executeTool stub_host) JNull fresh_state =
           (Inl (ErrorInstance (MCPError ''Error'' ''Invalid pipeline configuration'' None None None)),
            fresh_state) \<and>
         callTool stub_host ''executePipeline'' JNull fresh_state =
           (Inl \<lparr>code = JStr ''TOOL_ERROR'', message = ''Invalid pipeline configuration'',
                 details = ErrorInstance
                   (MCPError ''Error'' ''Invalid pipeline configuration'' None None None),
                 retryable = False,
                 suggestions = [''Check input parameters'', ''Consult Linear API documentation'']\<rparr>,
            fresh_state)"
proof -
  have "PipelineSchema_safeParse JNull = None"
    by (simp add: PipelineSchema_safeParse_def)
  then show ?thesis
    by (rule invalid_pipeline_rejected)
qed

theorem invalid_pipeline_rejected_counterexample:
  "PipelineSchema_safeParse malformed_pipeline = None \<and>
   fst (executePipeline stub_host (executeTool stub_host) malformed_pipeline fresh_state) =
     Inl (ErrorInstance (MCPError ''Error'' ''Invalid pipeline configuration'' None None None)) \<and>
   fst (callTool stub_host ''executePipeline'' malformed_pipeline fresh_state) =
     Inl \<lparr>code = JStr ''TOOL_ERROR'', message = ''Invalid pipeline configuration'',
          details = ErrorInstance
            (MCPError ''Error'' ''Invalid pipeline configuration'' None None None),
          retryable = False,
          suggestions = [''Check input parameters'', ''Consult Linear API documentation'']\<rparr>"
  by (simp add: malformed_pipeline_def model_defs stub_defs)

section \<open>Properties of the request handler\<close>

lemma callTool_failure:
  "nm \<noteq> ''executePipeline'' \<Longrightarrow> fst (executeTool h nm args s) = Inl error \<Longrightarrow>
   fst (callTool h nm args s) = Inl (error_response h error)"
  by (auto simp add: callTool_def split: prod.splits sum.splits)

lemma error_response_code:
  "ErrorPayload.code (error_response h error) =
     (case error of
        ErrorInstance e \<Rightarrow> (case MCPError.code e of Some c \<Rightarrow> c | None \<Rightarrow> JStr ''TOOL_ERROR'')
      | NonError v \<Rightarrow> JStr ''TOOL_ERROR'')"
  by (simp add: error_response_def Let_def)

text \<open>
  C3, as the code has it. \<open>executeTool\<close> raises \<open>Error('Unknown tool: ' + name)\<close> for
  a name other than \<open>listIssues\<close> and \<open>createIssue\<close>, and
  \<open>Error('Invalid list issues arguments')\<close> or \<open>Error('Invalid issue creation arguments')\<close>
  for arguments that the tool's validator rejects; none of them has a \<open>code\<close> property.
  A value raised by the client is raised again as it is. The handler reports a failure
  of \<open>executeTool\<close> with the code of the raised value when that is an \<open>Error\<close> with a
  \<open>code\<close> property, and with \<open>TOOL_ERROR\<close> otherwise.
\<close>

theorem executeTool_failure_kinds:
  "(nm \<noteq> ''listIssues'' \<and> nm \<noteq> ''createIssue'' \<longrightarrow>
      fst (executeTool h nm args s) =
        Inl (ErrorInstance (MCPError ''Error'' (''Unknown tool: '' @ nm) None None None))) \<and>
   (\<not> isValidListIssuesArgs args \<longrightarrow>
      fst (executeTool h ''listIssues'' args s) =
        Inl (ErrorInstance (MCPError ''Error'' ''Invalid list issues arguments'' None None None))) \<and>
   (\<not> isValidIssueCreateArgs args \<longrightarrow>
      fst (executeTool h ''createIssue'' args s) =
        Inl (ErrorInstance (MCPError ''Error'' ''Invalid issue creation arguments'' None None None))) \<and>
   (isValidListIssuesArgs args \<and>
    fst (client_issues h args (snd (Date_now h (world s)))) = Inl error \<longrightarrow>
      fst (executeTool h ''listIssues'' args s) = Inl error) \<and>
   (isValidIssueCreateArgs args \<and>
    fst (client_createIssue h args (snd (Date_now h (world s)))) = Inl error \<longrightarrow>
      fst (executeTool h ''createIssue'' args s) = Inl error) \<and>
   (nm \<noteq> ''executePipeline'' \<and> fst (executeTool h nm args s) = Inl error \<longrightarrow>
      fst (callTool h nm args s) = Inl (error_response h error) \<and>
      ErrorPayload.code (error_response h error) =
        (case error of
           ErrorInstance e \<Rightarrow>
             (case MCPError.code e of Some c \<Rightarrow> c | None \<Rightarrow> JStr ''TOOL_ERROR'')
         | NonError v \<Rightarrow> JStr ''TOOL_ERROR''))"
proof (intro conjI impI)
  assume "nm \<noteq> ''listIssues'' \<and> nm \<noteq> ''createIssue''"
  then show "fst (executeTool h nm args s) =
        Inl (ErrorInstance (MCPError ''Error'' (''Unknown tool: '' @ nm) None None None))"
    by (simp add: executeTool_outcome new_Error_def)
next
  assume "\<not> isValidListIssuesArgs args"
  then show "fst (executeTool h ''listIssues'' args s) =
        Inl (ErrorInstance (MCPError ''Error'' ''Invalid list issues arguments'' None None None))"
    by (simp add: executeTool_outcome new_Error_def)
next
  assume "\<not> isValidIssueCreateArgs args"
  then show "fst (executeTool h ''createIssue'' args s) =
        Inl (ErrorInstance (MCPError ''Error'' ''Invalid issue creation arguments'' None None None))"
    by (simp add: executeTool_outcome new_Error_def)
next
  assume "isValidListIssuesArgs args \<and>
    fst (client_issues h args (snd (Date_now h (world s)))) = Inl error"
  then show "fst (executeTool h ''listIssues'' args s) = Inl error"
    by (simp add: executeTool_outcome)
next
  assume "isValidIssueCreateArgs args \<and>
    fst (client_createIssue h args (snd (Date_now h (world s)))) = Inl error"
  then show "fst (executeTool h ''createIssue'' args s) = Inl error"
    by (simp add: executeTool_outcome)
next
  assume "nm \<noteq> ''executePipeline'' \<and> fst (executeTool h nm args s) = Inl error"
  then show "fst (callTool h nm args s) = Inl (error_response h error)"
    by (simp add: callTool_failure)
next
  show "ErrorPayload.code (error_response h error) =
        (case error of
           ErrorInstance e \<Rightarrow>
             (case MCPError.code e of Some c \<Rightarrow> c | None \<Rightarrow> JStr ''TOOL_ERROR'')
         | NonError v \<Rightarrow> JStr ''TOOL_ERROR'')"
    by (rule error_response_code)
qed

theorem executeTool_failure_kinds_witness:
  "fst (executeTool stub_host ''deleteIssue'' create_args fresh_state) =
     Inl (ErrorInstance (MCPError ''Error'' ''Unknown tool: deleteIssue'' None None None)) \<and>
   fst (executeTool stub_host ''listIssues'' (JArr []) fresh_state) =
     Inl (ErrorInstance (MCPError ''Error'' ''Invalid list issues arguments'' None None None)) \<and>
   fst (executeTool stub_host ''createIssue'' missing_title fresh_state) =
     Inl (ErrorInstance (MCPError ''Error'' ''Invalid issue creation arguments'' None None None)) \<and>
   fst (executeTool stub_host ''listIssues'' busy_args fresh_state) =
     Inl (ErrorInstance rate_limit_error) \<and>
   fst (executeTool stub_host ''createIssue'' empty_title fresh_state) =
     Inl (NonError (JStr ''title is empty'')) \<and>
   fst (callTool stub_host ''listIssues'' busy_args fresh_state) =
     Inl (error_response stub_host (ErrorInstance rate_limit_error)) \<and>
   ErrorPayload.code (error_response stub_host (ErrorInstance rate_limit_error)) =
     JStr ''RATE_LIMIT'' \<and>
   fst (callTool stub_host ''createIssue'' empty_title fresh_state) =
     Inl (error_response stub_host (NonError (JStr ''title is empty''))) \<and>
   ErrorPayload.code (error_response stub_host (NonError (JStr ''title is empty''))) =
     JStr ''TOOL_ERROR''"
proof -
  have a: "''deleteIssue'' \<noteq> ''listIssues'' \<and> ''deleteIssue'' \<noteq> ''createIssue''"
    by simp
  have b: "\<not> isValidListIssuesArgs (JArr [])"
    by (simp add: model_defs)
  have c: "\<not> isValidIssueCreateArgs missing_title"
    by (simp add: model_defs args_defs)
  have d: "isValidListIssuesArgs busy_args \<and>
    fst (client_issues stub_host busy_args (snd (Date_now stub_host (world fresh_state)))) =
      Inl (ErrorInstance rate_limit_error)"
    by (simp add: model_defs args_defs stub_defs)
  have e: "isValidIssueCreateArgs empty_title \<and>
    fst (client_createIssue stub_host empty_title (snd (Date_now stub_host (world fresh_state)))) =
      Inl (NonError (JStr ''title is empty''))"
    by (simp add: model_defs args_defs stub_defs)
  have f: "''listIssues'' \<noteq> ''executePipeline''" "''createIssue'' \<noteq> ''executePipeline''"
    by simp_all
  note t = executeTool_failure_kinds [where h = stub_host and s = fresh_state]
  have 1: "fst (executeTool stub_host ''deleteIssue'' create_args fresh_state) =
     Inl (ErrorInstance (MCPError ''Error'' ''Unknown tool: deleteIssue'' None None None))"
    using t [where nm = "''deleteIssue''" and args = create_args] a by simp
  have 2: "fst (executeTool stub_host ''listIssues'' (JArr []) fresh_state) =
     Inl (ErrorInstance (MCPError ''Error'' ''Invalid list issues arguments'' None None None))"
    using t [where args = "JArr []"] b by blast
  have 3: "fst (executeTool stub_host ''createIssue'' missing_title fresh_state) =
     Inl (ErrorInstance (MCPError ''Error'' ''Invalid issue creation arguments'' None None None))"
    using t [where args = missing_title] c by blast
  have 4: "fst (executeTool stub_host ''listIssues'' busy_args fresh_state) =
     Inl (ErrorInstance rate_limit_error)"
    using t [where args = busy_args and error = "ErrorInstance rate_limit_error"] d by blast
  have 5: "fst (executeTool stub_host ''createIssue'' empty_title fresh_state) =
     Inl (NonError (JStr ''title is empty''))"
    using t [where args = empty_title and error = "NonError (JStr ''title is empty'')"] e by blast
  have 6: "fst (callTool stub_host ''listIssues'' busy_args fresh_state) =
     Inl (error_response stub_host (ErrorInstance rate_limit_error)) \<and>
   ErrorPayload.code (error_response stub_host (ErrorInstance rate_limit_error)) =
     JStr ''RATE_LIMIT''"
    using t [where nm = "''listIssues''" and args = busy_args
        and error = "ErrorInstance rate_limit_error"] 4 f by (simp add: rate_limit_error_def)
  have 7: "fst (callTool stub_host ''createIssue'' empty_title fresh_state) =
     Inl (error_response stub_host (NonError (JStr ''title is empty''))) \<and>
   ErrorPayload.code (error_response stub_host (NonError (JStr ''title is empty''))) =
     JStr ''TOOL_ERROR''"
    using t [where nm = "''createIssue''" and args = empty_title
        and error = "NonError (JStr ''title is empty'')"] 5 f by simp
  show ?thesis
    using 1 2 3 4 5 6 7 by blast
qed

theorem executeTool_failure_kinds_counterexample:
  "fst (executeTool stub_host ''updateIssue'' create_args fresh_state) =
     Inl (ErrorInstance (MCPError ''Error'' ''Unknown tool: updateIssue'' None None None)) \<and>
   fst (callTool stub_host ''updateIssue'' create_args fresh_state) =
     Inl \<lparr>code = JStr ''TOOL_ERROR'', message = ''Unknown tool: updateIssue'',
          details = ErrorInstance (MCPError ''Error'' ''Unknown tool: updateIssue'' None None None),
          retryable = False, suggestions = default_suggestions\<rparr> \<and>
   fst (executeTool stub_host ''createIssue'' wrong_priority fresh_state) =
     Inl (ErrorInstance (MCPError ''Error'' ''Invalid issue creation arguments'' None None None)) \<and>
   fst (callTool stub_host ''createIssue'' wrong_priority fresh_state) =
     Inl \<lparr>code = JStr ''TOOL_ERROR'', message = ''Invalid issue creation arguments'',
          details = ErrorInstance
            (MCPError ''Error'' ''Invalid issue creation arguments'' None None None),
          retryable = False, suggestions = default_suggestions\<rparr>"
  by (simp add: model_defs stub_defs args_defs)

text \<open>
  C8, as the code has it. The \<open>suggestions\<close> of an error payload are determined by
  its \<open>code\<close> through a fixed table, whose entries are capitalised:
  \<open>RATE_LIMIT\<close> gives \<open>['Wait and retry later', 'Reduce request frequency']\<close>,
  \<open>AUTHENTICATION_ERROR\<close> gives \<open>['Check API key', 'Verify Linear authentication']\<close>,
  \<open>NETWORK_ERROR\<close> gives \<open>['Check network connection', 'Verify Linear API status']\<close>,
  any other code gives \<open>['Check input parameters', 'Consult Linear API documentation']\<close>.
\<close>

theorem suggestions_from_code:
  "ErrorPayload.suggestions (error_response h error) =
     (if ErrorPayload.code (error_response h error) = JStr ''RATE_LIMIT''
        then [''Wait and retry later'', ''Reduce request frequency'']
      else if ErrorPayload.code (error_response h error) = JStr ''AUTHENTICATION_ERROR''
        then [''Check API key'', ''Verify Linear authentication'']
      else if ErrorPayload.code (error_response h error) = JStr ''NETWORK_ERROR''
        then [''Check network connection'', ''Verify Linear API status'']
      else [''Check input parameters'', ''Consult Linear API documentation''])"
  by (simp add: error_response_def getSuggestionsForError_def Let_def)

theorem suggestions_from_code_witness:
  "ErrorPayload.suggestions (error_response stub_host (ErrorInstance rate_limit_error)) =
     [''Wait and retry later'', ''Reduce request frequency'']"
  using suggestions_from_code [of stub_host "ErrorInstance rate_limit_error"]
  by (simp add: error_response_code rate_limit_error_def)

theorem suggestions_from_code_counterexample:
  "ErrorPayload.code (error_response stub_host (ErrorInstance rate_limit_error)) =
     JStr ''RATE_LIMIT'' \<and>
   ErrorPayload.suggestions (error_response stub_host (ErrorInstance rate_limit_error)) \<noteq>
     [''wait and retry later'', ''reduce request frequency'']"
  by (simp add: model_defs stub_defs)

section \<open>The two implementations of the validators\<close>















end
